theory Spec2Isabelle
  imports Complex_Main
begin

section \<open>Shared data model\<close>

text \<open>
  Modelled from the spec: the \<open>RecordState\<close> enumeration is declared in
  \<open>colrev/record.py\<close>, which is not among the sources at hand. The members are the
  ones the sources name (\<open>md_imported\<close>, \<open>md_needs_manual_preparation\<close>,
  \<open>md_prepared\<close>, \<open>pdf_needs_manual_preparation\<close>) and the spec's \<open>processed\<close>
  stage. The functions below only compare a status with named members.
\<close>

datatype RecordState =
    md_imported
  | md_needs_manual_preparation
  | md_prepared
  | md_processed
  | pdf_needs_manual_preparation

text \<open>
  A record dictionary. The status type is a parameter: the dedupe code reads
  \<open>x["colrev_status"]\<close> of freshly loaded records (the key is there, type
  \<open>RecordState\<close>), the validation code deletes the key (type \<open>RecordState option\<close>,
  \<open>None\<close> for a missing key). \<open>changed_in_target_commit\<close> is the presence of the key
  of that name; \<open>data_fields\<close> are the remaining bibliographic fields, which only the
  similarity function reads.
\<close>

record 's record_dict =
  ID :: string
  colrev_status :: 's
  colrev_origin :: "string list"
  changed_in_target_commit :: bool
  data_fields :: "(string \<times> string) list"

text \<open>Python's \<open>needle in haystack\<close> on strings.\<close>

fun str_contains :: "string \<Rightarrow> string \<Rightarrow> bool" where
  "str_contains needle [] = (needle = [])"
| "str_contains needle (c # cs) =
     (take (length needle) (c # cs) = needle \<or> str_contains needle cs)"

datatype error =
    CoLRevException
  | AssertionError
  | MissingValueError
  | UnboundLocalError
  | KeyError
  | IndexError
  | ValueError
  | OSError
  | RequestException
  | UnicodeEncodeError
  | ServiceNotAvailableException

section \<open>Simple dedupe (\<open>colrev/ops/built_in/dedupe/simple_dedupe.py\<close>)\<close>

subsection \<open>Settings and construction\<close>

record SimpleDedupeSettings =
  endpoint :: string
  merging_non_dup_threshold :: real
  merging_dup_threshold :: real

text \<open>
  The settings dictionary handed to the constructor: \<open>endpoint\<close> has no default,
  the two thresholds default to \<open>0.7\<close> and \<open>0.95\<close>.
\<close>

record settings_dict =
  d_endpoint :: "string option"
  d_merging_non_dup_threshold :: "real option"
  d_merging_dup_threshold :: "real option"

definition from_dict :: "settings_dict \<Rightarrow> error + SimpleDedupeSettings" where
  "from_dict d =
     (case d_endpoint d of
        None \<Rightarrow> Inl MissingValueError
      | Some e \<Rightarrow>
          Inr \<lparr> endpoint = e,
                merging_non_dup_threshold =
                  (case d_merging_non_dup_threshold d of None \<Rightarrow> 7 / 10 | Some v \<Rightarrow> v),
                merging_dup_threshold =
                  (case d_merging_dup_threshold d of None \<Rightarrow> 95 / 100 | Some v \<Rightarrow> v) \<rparr>)"

definition SimpleDedupe_init :: "settings_dict \<Rightarrow> error + SimpleDedupeSettings" where
  "SimpleDedupe_init d =
     (case from_dict d of
        Inl e \<Rightarrow> Inl e
      | Inr s \<Rightarrow>
          if \<not> merging_non_dup_threshold s \<ge> 0 then Inl AssertionError
          else if \<not> merging_non_dup_threshold s \<le> 1 then Inl AssertionError
          else if \<not> merging_dup_threshold s \<ge> 0 then Inl AssertionError
          else if \<not> merging_dup_threshold s \<le> 1 then Inl AssertionError
          else Inr s)"

subsection \<open>Classifying one record\<close>

datatype decision = no_duplicate | potential_duplicate | duplicate

record dedupe_result =
  ID1 :: string
  ID2 :: string
  similarity :: real
  decision :: decision

record 's batch_item =
  item_record :: string
  item_queue :: "'s record_dict list"

text \<open>
  \<open>__calculate_similarities_record\<close>: every row of the data frame is scored against the
  last row; the result keeps the columns \<open>ID\<close> and \<open>similarity\<close> (the \<open>details\<close>
  column is only logged). The similarity function of \<open>colrev.record\<close> is a parameter.
\<close>

definition calculate_similarities_record ::
  "('s record_dict \<Rightarrow> 's record_dict \<Rightarrow> real) \<Rightarrow> 's record_dict list \<Rightarrow> (string \<times> real) list"
where
  "calculate_similarities_record get_similarity records_df =
     map (\<lambda>row. (ID row, get_similarity row (last records_df))) records_df"

text \<open>\<open>Series.max\<close> and \<open>Series.idxmax\<close> (first row attaining the maximum).\<close>

definition series_max :: "(string \<times> real) list \<Rightarrow> real" where
  "series_max df = Max (set (map snd df))"

definition idxmax_ID :: "(string \<times> real) list \<Rightarrow> string" where
  "idxmax_ID df = fst (hd (filter (\<lambda>row. snd row = series_max df) df))"

definition append_merges ::
  "('s record_dict \<Rightarrow> 's record_dict \<Rightarrow> real) \<Rightarrow> SimpleDedupeSettings \<Rightarrow> 's batch_item
     \<Rightarrow> dedupe_result"
where
  "append_merges get_similarity settings batch =
     (let records_df = item_queue batch in
      if length records_df < 2 then
        \<lparr> ID1 = item_record batch, ID2 = ''NA'', similarity = 1, decision = no_duplicate \<rparr>
      else
        let sims = butlast (calculate_similarities_record get_similarity records_df);
            max_similarity = series_max sims
        in
          if max_similarity \<le> merging_non_dup_threshold settings then
            \<lparr> ID1 = item_record batch, ID2 = ''NA'', similarity = max_similarity,
              decision = no_duplicate \<rparr>
          else if merging_non_dup_threshold settings < max_similarity
                  \<and> max_similarity < merging_dup_threshold settings then
            \<lparr> ID1 = item_record batch, ID2 = idxmax_ID sims, similarity = max_similarity,
              decision = potential_duplicate \<rparr>
          else
            \<lparr> ID1 = item_record batch, ID2 = idxmax_ID sims, similarity = max_similarity,
              decision = duplicate \<rparr>)"

subsection \<open>Building the queue and the batch\<close>

record dedupe_data =
  nr_tasks :: nat
  queue :: "string list"
  items_start :: nat

definition ids_to_dedupe :: "RecordState record_dict list \<Rightarrow> string list" where
  "ids_to_dedupe record_header_list =
     map ID (filter (\<lambda>x. colrev_status x = md_prepared) record_header_list)"

definition processed_ids :: "RecordState record_dict list \<Rightarrow> string list" where
  "processed_ids record_header_list =
     map ID (filter (\<lambda>x. colrev_status x \<notin>
                set [md_imported, md_prepared, md_needs_manual_preparation])
              record_header_list)"

definition get_dedupe_data :: "bool \<Rightarrow> RecordState record_dict list \<Rightarrow> error + dedupe_data" where
  "get_dedupe_data force_mode record_header_list =
     (if length (ids_to_dedupe record_header_list) > 20 \<and> \<not> force_mode then
        Inl CoLRevException
      else
        Inr \<lparr> nr_tasks = length (ids_to_dedupe record_header_list),
              queue = processed_ids record_header_list @ ids_to_dedupe record_header_list,
              items_start = length (processed_ids record_header_list) \<rparr>)"

text \<open>
  \<open>__get_record_batch\<close>: the records of the store whose id is in the queue, in the
  order of the store, go through \<open>Dedupe.prep_records\<close> (not among the sources at hand,
  hence a parameter) into a data frame; the item for queue position \<open>i\<close> is the id
  \<open>queue[i]\<close> with the first \<open>i + 1\<close> rows of that frame.
\<close>

definition get_record_batch ::
  "(RecordState record_dict list \<Rightarrow> RecordState record_dict list)
     \<Rightarrow> RecordState record_dict list \<Rightarrow> dedupe_data \<Rightarrow> RecordState batch_item list"
where
  "get_record_batch prep_records records dd =
     (let records_queue = filter (\<lambda>r. ID r \<in> set (queue dd)) records;
          records_df = prep_records records_queue
      in map (\<lambda>i. \<lparr> item_record = queue dd ! i, item_queue = take (i + 1) records_df \<rparr>)
             [items_start dd ..< length (queue dd)])"

text \<open>
  \<open>run_dedupe\<close> up to the list \<open>dedupe_batch_results\<close>; applying the merges and
  committing belong to the dedupe operation and the record store.
\<close>

definition run_dedupe ::
  "(RecordState record_dict \<Rightarrow> RecordState record_dict \<Rightarrow> real)
     \<Rightarrow> (RecordState record_dict list \<Rightarrow> RecordState record_dict list)
     \<Rightarrow> SimpleDedupeSettings \<Rightarrow> bool \<Rightarrow> RecordState record_dict list
     \<Rightarrow> error + dedupe_result list"
where
  "run_dedupe get_similarity prep_records settings force_mode records =
     (case get_dedupe_data force_mode records of
        Inl e \<Rightarrow> Inl e
      | Inr dd \<Rightarrow>
          Inr (map (append_merges get_similarity settings)
                   (get_record_batch prep_records records dd)))"

text \<open>
  The two parts of the queue: positions below \<open>items_start\<close> hold the context ids,
  positions from \<open>items_start\<close> on hold the ids that \<open>__get_record_batch\<close> turns into
  batch items.
\<close>

definition context_part :: "dedupe_data \<Rightarrow> string list" where
  "context_part dd = take (items_start dd) (queue dd)"

definition pending_part :: "dedupe_data \<Rightarrow> string list" where
  "pending_part dd = drop (items_start dd) (queue dd)"

section \<open>Validation (\<open>colrev/ops/validate.py\<close>)\<close>

subsection \<open>Loading the prior snapshot\<close>

text \<open>
  \<open>__load_prior_records_dict\<close>: \<open>revlist\<close> is the list of (commit id, file contents)
  of the commits touching the records file, most recent first. The loop skips up to and
  including the target commit and parses the contents of the next commit; when the loop
  ends without that assignment, \<open>return prior_records_dict\<close> reads an unbound local.
  The parser \<open>load_records_dict\<close> of the dataset is a parameter.
\<close>

fun load_prior_loop ::
  "('c \<Rightarrow> 'd) \<Rightarrow> string \<Rightarrow> bool \<Rightarrow> (string \<times> 'c) list \<Rightarrow> error + 'd"
where
  "load_prior_loop load_records_dict target_commit found_target_commit [] =
     Inl UnboundLocalError"
| "load_prior_loop load_records_dict target_commit found_target_commit
     ((commit_id, filecontents) # revlist) =
     (if commit_id = target_commit then
        load_prior_loop load_records_dict target_commit True revlist
      else if \<not> found_target_commit then
        load_prior_loop load_records_dict target_commit found_target_commit revlist
      else Inr (load_records_dict filecontents))"

definition load_prior_records_dict ::
  "('c \<Rightarrow> 'd) \<Rightarrow> (string \<times> 'c) list \<Rightarrow> string \<Rightarrow> error + 'd"
where
  "load_prior_records_dict load_records_dict revlist target_commit =
     load_prior_loop load_records_dict target_commit False revlist"

subsection \<open>The two validation modes\<close>

type_synonym vrecord = "RecordState option record_dict"

type_synonym change = "vrecord \<times> vrecord \<times> real"

definition sim_of :: "change \<Rightarrow> real" where
  "sim_of c = snd (snd c)"

text \<open>
  The filter \<open>sim < 1\<close> and the stable sort by similarity with \<open>reverse=True\<close>, which
  keeps entries of equal similarity in their order.
\<close>

definition rank_changes :: "change list \<Rightarrow> change list" where
  "rank_changes change_diff =
     sort_key (\<lambda>c. - sim_of c) (filter (\<lambda>c. sim_of c < 1) change_diff)"

text \<open>
  The loops hand on the list of records as the deletions of keys leave it (the
  dictionaries are shared with the caller) together with the pairs found so far.
\<close>

fun preparation_loop ::
  "(vrecord \<Rightarrow> vrecord \<Rightarrow> real) \<Rightarrow> vrecord list \<Rightarrow> vrecord list
     \<Rightarrow> error + (vrecord list \<times> change list)"
where
  "preparation_loop get_record_similarity prior [] = Inr ([], [])"
| "preparation_loop get_record_similarity prior (record_dict # records) =
     (if \<not> changed_in_target_commit record_dict then
        (case preparation_loop get_record_similarity prior records of
           Inl e \<Rightarrow> Inl e
         | Inr (records', change_diff) \<Rightarrow> Inr (record_dict # records', change_diff))
      else if colrev_status record_dict = None then Inl KeyError
      else
        let record_dict' =
              record_dict \<lparr> changed_in_target_commit := False, colrev_status := None \<rparr>;
            found =
              concat (map (\<lambda>cur_record_link.
                        map (\<lambda>prior_record_dict.
                               (prior_record_dict, record_dict',
                                get_record_similarity record_dict' prior_record_dict))
                            (filter (\<lambda>x. cur_record_link \<in> set (colrev_origin x)) prior))
                      (colrev_origin record_dict'))
        in case preparation_loop get_record_similarity prior records of
             Inl e \<Rightarrow> Inl e
           | Inr (records', change_diff) \<Rightarrow> Inr (record_dict' # records', found @ change_diff))"

definition validate_preparation_changes ::
  "(vrecord \<Rightarrow> vrecord \<Rightarrow> real) \<Rightarrow> ('c \<Rightarrow> vrecord list) \<Rightarrow> (string \<times> 'c) list
     \<Rightarrow> vrecord list \<Rightarrow> string \<Rightarrow> error + (vrecord list \<times> change list)"
where
  "validate_preparation_changes get_record_similarity load_records_dict revlist records
     target_commit =
     (case load_prior_records_dict load_records_dict revlist target_commit of
        Inl e \<Rightarrow> Inl e
      | Inr prior \<Rightarrow>
          (case preparation_loop get_record_similarity prior records of
             Inl e \<Rightarrow> Inl e
           | Inr (records', change_diff) \<Rightarrow> Inr (records', rank_changes change_diff)))"

text \<open>\<open>itertools.combinations(els, 2)\<close>.\<close>

fun combinations2 :: "'a list \<Rightarrow> ('a \<times> 'a) list" where
  "combinations2 [] = []"
| "combinations2 (x # xs) = map (Pair x) xs @ combinations2 xs"

text \<open>The inner loop over the pairs of origins; \<open>record_1[0]\<close> on an empty list raises.\<close>

fun pairs_loop ::
  "(vrecord \<Rightarrow> vrecord \<Rightarrow> real) \<Rightarrow> vrecord list \<Rightarrow> (string \<times> string) list
     \<Rightarrow> error + change list"
where
  "pairs_loop get_record_similarity prior [] = Inr []"
| "pairs_loop get_record_similarity prior ((el_1, el_2) # duplicate_el_pairs) =
     (case (filter (\<lambda>x. el_1 \<in> set (colrev_origin x)) prior,
            filter (\<lambda>x. el_2 \<in> set (colrev_origin x)) prior) of
        ([], _) \<Rightarrow> Inl IndexError
      | (_ # _, []) \<Rightarrow> Inl IndexError
      | (r1 # _, r2 # _) \<Rightarrow>
          (case pairs_loop get_record_similarity prior duplicate_el_pairs of
             Inl e \<Rightarrow> Inl e
           | Inr change_diff \<Rightarrow> Inr ((r1, r2, get_record_similarity r1 r2) # change_diff)))"

fun merging_loop ::
  "(vrecord \<Rightarrow> vrecord \<Rightarrow> real) \<Rightarrow> vrecord list \<Rightarrow> vrecord list
     \<Rightarrow> error + (vrecord list \<times> change list)"
where
  "merging_loop get_record_similarity prior [] = Inr ([], [])"
| "merging_loop get_record_similarity prior (r # records) =
     (if \<not> changed_in_target_commit r then
        (case merging_loop get_record_similarity prior records of
           Inl e \<Rightarrow> Inl e
         | Inr (records', change_diff) \<Rightarrow> Inr (r # records', change_diff))
      else
        let r' = r \<lparr> changed_in_target_commit := False \<rparr> in
        if '';'' \<in> set (colrev_origin r') then
          (case pairs_loop get_record_similarity prior (combinations2 (colrev_origin r')) of
             Inl e \<Rightarrow> Inl e
           | Inr found \<Rightarrow>
               (case merging_loop get_record_similarity prior records of
                  Inl e \<Rightarrow> Inl e
                | Inr (records', change_diff) \<Rightarrow> Inr (r' # records', found @ change_diff)))
        else
          (case merging_loop get_record_similarity prior records of
             Inl e \<Rightarrow> Inl e
           | Inr (records', change_diff) \<Rightarrow> Inr (r' # records', change_diff)))"

definition validate_merging_changes ::
  "(vrecord \<Rightarrow> vrecord \<Rightarrow> real) \<Rightarrow> ('c \<Rightarrow> vrecord list) \<Rightarrow> (string \<times> 'c) list
     \<Rightarrow> vrecord list \<Rightarrow> string \<Rightarrow> error + (vrecord list \<times> change list)"
where
  "validate_merging_changes get_record_similarity load_records_dict revlist records
     target_commit =
     (case load_prior_records_dict load_records_dict revlist target_commit of
        Inl e \<Rightarrow> Inl e
      | Inr prior \<Rightarrow>
          (case merging_loop get_record_similarity prior records of
             Inl e \<Rightarrow> Inl e
           | Inr (records', change_diff) \<Rightarrow> Inr (records', rank_changes change_diff)))"

subsection \<open>The entry point\<close>

text \<open>
  What the operation reads from the repository: the history of the records file, the
  history of \<open>status.yaml\<close> with the commit messages, the sha of the last commit, the
  current records and \<open>dataset.get_changed_records\<close>.
\<close>

record 'c repo =
  records_revlist :: "(string \<times> 'c) list"
  status_revlist :: "(string \<times> string) list"
  last_commit_sha :: string
  current_records :: "vrecord list"
  get_changed_records :: "string \<Rightarrow> vrecord list"

definition load_changed_records :: "'c repo \<Rightarrow> string option \<Rightarrow> vrecord list" where
  "load_changed_records rp target_commit =
     (case target_commit of
        None \<Rightarrow> map (\<lambda>record_dict. record_dict \<lparr> changed_in_target_commit := True \<rparr>)
                    (current_records rp)
      | Some t \<Rightarrow> get_changed_records rp t)"

fun set_scope_loop :: "string \<Rightarrow> (string \<times> string) list \<Rightarrow> string option \<Rightarrow> string option"
where
  "set_scope_loop target_commit [] scope = scope"
| "set_scope_loop target_commit ((commit_id, msg) # revlist) scope =
     set_scope_loop target_commit revlist
       (if commit_id = target_commit then
          (if str_contains ''colrev prep'' msg then Some ''prepare''
           else if str_contains ''colrev dedupe'' msg then Some ''merge''
           else Some ''unspecified'')
        else scope)"

definition set_scope_based_on_target_commit :: "'c repo \<Rightarrow> error + string" where
  "set_scope_based_on_target_commit rp =
     (case set_scope_loop (last_commit_sha rp) (status_revlist rp) None of
        None \<Rightarrow> Inl UnboundLocalError
      | Some scope \<Rightarrow> Inr scope)"

text \<open>
  \<open>Validate.main\<close>. With \<open>properties\<close> the repository-level check runs and the result
  is the empty list. Otherwise \<open>validation_details\<close> is assigned by the preparation
  validation, then by the merge validation, each under its test of \<open>scope\<close>, and
  returned; both validations work on the same list of record dictionaries.
\<close>

definition main_validate ::
  "(vrecord \<Rightarrow> vrecord \<Rightarrow> real) \<Rightarrow> ('c \<Rightarrow> vrecord list) \<Rightarrow> 'c repo
     \<Rightarrow> string \<Rightarrow> bool \<Rightarrow> string \<Rightarrow> error + change list"
where
  "main_validate get_record_similarity load_records_dict rp scope properties target_commit =
     (if properties then Inr []
      else
        let records = load_changed_records rp (Some target_commit) in
        case (if target_commit = [] \<and> ''unspecified'' = scope
              then set_scope_based_on_target_commit rp else Inr scope) of
          Inl e \<Rightarrow> Inl e
        | Inr scope' \<Rightarrow>
            (case (if scope' \<in> set [''prepare'', ''all'']
                   then (case validate_preparation_changes get_record_similarity
                                load_records_dict (records_revlist rp) records target_commit of
                           Inl e \<Rightarrow> Inl e
                         | Inr (records', details) \<Rightarrow> Inr (records', Some details))
                   else Inr (records, None)) of
               Inl e \<Rightarrow> Inl e
             | Inr (records1, validation_details1) \<Rightarrow>
                 (case (if scope' \<in> set [''merge'', ''all'']
                        then (case validate_merging_changes get_record_similarity
                                     load_records_dict (records_revlist rp) records1
                                     target_commit of
                                Inl e \<Rightarrow> Inl e
                              | Inr (records', details) \<Rightarrow> Inr (Some details))
                        else Inr validation_details1) of
                    Inl e \<Rightarrow> Inl e
                  | Inr None \<Rightarrow> Inl UnboundLocalError
                  | Inr (Some validation_details) \<Rightarrow> Inr validation_details)))"

section \<open>Masterdata from DBLP (\<open>colrev/ops/built_in/search_sources/dblp.py\<close>)\<close>

text \<open>
  The lock is a \<open>multiprocessing.Lock\<close>, seen from the process that runs the function.
  \<open>acquire(timeout=60)\<close> returns whether the lock was obtained: at once when it is free,
  after the other holder released it in time, and not at all otherwise (the lock is not
  reentrant). \<open>release()\<close> frees the lock whoever holds it and raises \<open>ValueError\<close> on a
  free lock.
\<close>

datatype lock_state = Free | HeldBySelf | HeldByOther

definition lock_acquire :: "bool \<Rightarrow> lock_state \<Rightarrow> bool \<times> lock_state" where
  "lock_acquire released_in_time l =
     (case l of
        Free \<Rightarrow> (True, HeldBySelf)
      | HeldByOther \<Rightarrow> (if released_in_time then (True, HeldBySelf) else (False, HeldByOther))
      | HeldBySelf \<Rightarrow> (False, HeldBySelf))"

definition lock_release :: "lock_state \<Rightarrow> error + lock_state" where
  "lock_release l = (case l of Free \<Rightarrow> Inl ValueError | _ \<Rightarrow> Inr Free)"

text \<open>
  What the function calls outside itself: the retrieval of the DBLP records for the
  query built from the record (a list, or an exception), the retrieval similarity, and
  \<open>update_feed_and_record\<close>, the calls between \<open>acquire\<close> and \<open>release\<close> (loading
  the feed, adding the retrieved record, merging it into the record, setting the status,
  saving the feed file). These calls change the record in place and may raise at any
  point: they give the exception raised, if any, and the record as they leave it.
\<close>

type_synonym prec = "RecordState record_dict"

record dblp_env =
  origin_prefix :: string
  retrieval_similarity :: real
  retrieve_dblp_records :: "prec \<Rightarrow> error + prec list"
  get_retrieval_similarity :: "prec \<Rightarrow> prec \<Rightarrow> real"
  released_in_time :: bool
  update_feed_and_record :: "prec \<Rightarrow> prec \<Rightarrow> error option \<times> prec"

text \<open>
  The loop over the retrieved records, with the exception that leaves it, if any, and
  the record as it is then. The value of \<open>acquire\<close> is dropped; an exception of the
  calls after it leaves the loop with the lock as \<open>acquire\<close> left it.
\<close>

fun retrieved_loop ::
  "dblp_env \<Rightarrow> lock_state \<Rightarrow> prec \<Rightarrow> prec list \<Rightarrow> (error option \<times> prec) \<times> lock_state"
where
  "retrieved_loop env l r [] = ((None, r), l)"
| "retrieved_loop env l r (retrieved_record # rest) =
     (if get_retrieval_similarity env r retrieved_record > retrieval_similarity env then
        let l1 = snd (lock_acquire (released_in_time env) l) in
        case update_feed_and_record env r retrieved_record of
          (Some e, r1) \<Rightarrow> ((Some e, r1), l1)
        | (None, r') \<Rightarrow>
            (case lock_release l1 of
               Inl e \<Rightarrow> ((Some e, r'), l1)
             | Inr l2 \<Rightarrow> ((None, r'), l2))
      else retrieved_loop env l r rest)"

text \<open>
  The function itself: the early return for a record already linked, the \<open>try\<close> block,
  and the handler that swallows \<open>RequestException\<close> and \<open>UnicodeEncodeError\<close>, after
  which the record is returned as the calls made so far have left it.
\<close>

definition get_masterdata_from_dblp ::
  "dblp_env \<Rightarrow> lock_state \<Rightarrow> prec \<Rightarrow> (error + prec) \<times> lock_state"
where
  "get_masterdata_from_dblp env l r =
     (if list_ex (\<lambda>o'. str_contains (origin_prefix env) o') (colrev_origin r) then (Inr r, l)
      else
        case (case retrieve_dblp_records env r of
                Inl e \<Rightarrow> ((Some e, r), l)
              | Inr retrieved \<Rightarrow> retrieved_loop env l r retrieved) of
          ((Some e, r1), l') \<Rightarrow>
            (if e = RequestException \<or> e = UnicodeEncodeError then (Inr r1, l')
             else (Inl e, l'))
        | ((None, r'), l') \<Rightarrow> (Inr r', l'))"

section \<open>Example data\<close>

text \<open>Two records of a store, a similarity that only looks at the ids, and two settings.\<close>

definition rec_A :: "RecordState record_dict" where
  "rec_A = \<lparr> ID = ''A'', colrev_status = md_prepared, colrev_origin = [''src.bib/1''],
             changed_in_target_commit = False, data_fields = [(''title'', ''On records'')] \<rparr>"

definition rec_B :: "RecordState record_dict" where
  "rec_B = \<lparr> ID = ''B'', colrev_status = md_processed, colrev_origin = [''src.bib/2''],
             changed_in_target_commit = False, data_fields = [(''title'', ''On record'')] \<rparr>"

definition sim_by_ID :: "'s record_dict \<Rightarrow> 's record_dict \<Rightarrow> real" where
  "sim_by_ID a b = (if ID a = ID b then 1 else 4 / 5)"

definition default_settings :: SimpleDedupeSettings where
  "default_settings = \<lparr> endpoint = ''simple_dedupe'', merging_non_dup_threshold = 7 / 10,
       merging_dup_threshold = 95 / 100 \<rparr>"

definition equal_settings :: SimpleDedupeSettings where
  "equal_settings = \<lparr> endpoint = ''simple_dedupe'', merging_non_dup_threshold = 4 / 5,
       merging_dup_threshold = 4 / 5 \<rparr>"

text \<open>
  A store of 21 prepared records; two prior records, the record that merges them and the
  history of the merge; a record edited by a preparation and its history; a similarity
  that compares the bibliographic fields; a record retrieved from DBLP and two
  environments of the DBLP retrieval.
\<close>

definition many_prepared :: "RecordState record_dict list" where
  "many_prepared =
     map (\<lambda>i. \<lparr> ID = replicate (Suc i) CHR ''r'', colrev_status = md_prepared,
                 colrev_origin = [replicate (Suc i) CHR ''o''],
                 changed_in_target_commit = False, data_fields = [] \<rparr>) [0..<21]"

definition prior_a :: vrecord where
  "prior_a = \<lparr> ID = ''A'', colrev_status = Some md_prepared, colrev_origin = [''a.bib/1''],
               changed_in_target_commit = False, data_fields = [(''title'', ''On records'')] \<rparr>"

definition prior_b :: vrecord where
  "prior_b = \<lparr> ID = ''B'', colrev_status = Some md_prepared, colrev_origin = [''b.bib/7''],
               changed_in_target_commit = False, data_fields = [(''title'', ''Of records'')] \<rparr>"

definition merged_ab :: vrecord where
  "merged_ab = \<lparr> ID = ''A'', colrev_status = Some md_processed,
                 colrev_origin = [''a.bib/1'', ''b.bib/7''],
                 changed_in_target_commit = True, data_fields = [(''title'', ''On records'')] \<rparr>"

definition history :: "(string \<times> vrecord list) list" where
  "history = [(''c2'', [merged_ab]), (''c1'', [prior_a, prior_b])]"

definition sim_by_title :: "vrecord \<Rightarrow> vrecord \<Rightarrow> real" where
  "sim_by_title a b = (if data_fields a = data_fields b then 1 else 3 / 10)"


definition edited_a :: vrecord where
  "edited_a = \<lparr> ID = ''A'', colrev_status = Some md_prepared, colrev_origin = [''a.bib/1''],
               changed_in_target_commit = True, data_fields = [(''title'', ''On the records'')] \<rparr>"

definition prep_history :: "(string \<times> vrecord list) list" where
  "prep_history = [(''c2'', [edited_a]), (''c1'', [prior_a, prior_b])]"

definition prep_repo :: "(vrecord list) repo" where
  "prep_repo = \<lparr> records_revlist = prep_history, status_revlist = [(''c2'', ''colrev prep'')],
       last_commit_sha = ''c2'', current_records = [edited_a],
       get_changed_records = (\<lambda>t. if t = ''c2'' then [edited_a] else []) \<rparr>"

definition retrieved_a :: prec where
  "retrieved_a = \<lparr> ID = ''DBLP_A'', colrev_status = md_prepared,
       colrev_origin = [''dblp.bib/000001''], changed_in_target_commit = False,
       data_fields = [(''title'', ''On records'')] \<rparr>"

definition merged_a :: prec where
  "merged_a = rec_A \<lparr> colrev_origin := colrev_origin rec_A @ [''dblp.bib/000001''] \<rparr>"

definition failing_env :: dblp_env where
  "failing_env = \<lparr> origin_prefix = ''dblp.bib'', retrieval_similarity = 9 / 10,
       retrieve_dblp_records = (\<lambda>r. Inr [retrieved_a]),
       get_retrieval_similarity = (\<lambda>r retrieved. 1),
       released_in_time = False,
       update_feed_and_record = (\<lambda>r retrieved. (Some RequestException, r)) \<rparr>"

definition late_failing_env :: dblp_env where
  "late_failing_env =
     failing_env \<lparr> update_feed_and_record := (\<lambda>r retrieved. (Some RequestException, merged_a)) \<rparr>"

definition busy_env :: dblp_env where
  "busy_env = \<lparr> origin_prefix = ''dblp.bib'', retrieval_similarity = 9 / 10,
       retrieve_dblp_records = (\<lambda>r. Inr [retrieved_a]),
       get_retrieval_similarity = (\<lambda>r retrieved. 1),
       released_in_time = False,
       update_feed_and_record = (\<lambda>r retrieved. (None, merged_a)) \<rparr>"









section \<open>Properties of the simple dedupe\<close>

lemma rec_ID [simp]: "ID rec_A = ''A''" "ID rec_B = ''B''"
  by (simp_all add: rec_A_def rec_B_def)

lemma rec_status [simp]: "colrev_status rec_A = md_prepared" "colrev_status rec_B = md_processed"
  by (simp_all add: rec_A_def rec_B_def)

lemma series_max_butlast:
  "series_max (butlast (calculate_similarities_record sim q)) =
     Max ((\<lambda>r. sim r (last q)) ` set (butlast q))"
  by (simp add: series_max_def calculate_similarities_record_def map_butlast [symmetric] image_image)

text \<open>
  Claim C1, as the code has it. For a batch item of \<open>append_merges\<close>: when no row
  precedes the last row of the queue, the result is \<open>no_duplicate\<close> with similarity 1
  and \<open>ID2 = "NA"\<close>. Otherwise, with \<open>m\<close> the maximum of the scores of the preceding
  rows against the last row, the similarity is \<open>m\<close>, the decision is \<open>no_duplicate\<close>
  iff \<open>m \<le> merging_non_dup_threshold\<close>, \<open>potential_duplicate\<close> iff
  \<open>merging_non_dup_threshold < m < merging_dup_threshold\<close>, and \<open>duplicate\<close> iff
  \<open>merging_dup_threshold \<le> m\<close> and \<open>merging_non_dup_threshold < m\<close>: the test
  against the lower threshold comes first, so a score equal to both thresholds is a
  \<open>no_duplicate\<close>.
\<close>

theorem append_merges_classification:
  fixes s :: SimpleDedupeSettings and b :: "'s batch_item"
    and sim :: "'s record_dict \<Rightarrow> 's record_dict \<Rightarrow> real"
  defines "res \<equiv> append_merges sim s b"
  defines "m \<equiv> Max ((\<lambda>r. sim r (last (item_queue b))) ` set (butlast (item_queue b)))"
  shows "(butlast (item_queue b) = [] \<longrightarrow>
            res = \<lparr> ID1 = item_record b, ID2 = ''NA'', similarity = 1, decision = no_duplicate \<rparr>)
       \<and> (butlast (item_queue b) \<noteq> [] \<longrightarrow>
            ID1 res = item_record b \<and> similarity res = m
          \<and> (decision res = no_duplicate \<longleftrightarrow> m \<le> merging_non_dup_threshold s)
          \<and> (decision res = potential_duplicate \<longleftrightarrow>
                merging_non_dup_threshold s < m \<and> m < merging_dup_threshold s)
          \<and> (decision res = duplicate \<longleftrightarrow>
                merging_non_dup_threshold s < m \<and> merging_dup_threshold s \<le> m))"
proof -
  have len: "butlast (item_queue b) = [] \<longleftrightarrow> length (item_queue b) < 2"
    by (cases "item_queue b") (auto simp: Suc_lessI)
  show ?thesis
    unfolding res_def m_def len
    by (auto simp: append_merges_def Let_def series_max_butlast)
qed


theorem append_merges_classification_witness:
  "append_merges sim_by_ID default_settings \<lparr> item_record = ''B'', item_queue = [rec_B] \<rparr>
     = \<lparr> ID1 = ''B'', ID2 = ''NA'', similarity = 1, decision = no_duplicate \<rparr>
   \<and> decision (append_merges sim_by_ID default_settings
          \<lparr> item_record = ''A'', item_queue = [rec_B, rec_A] \<rparr>) = potential_duplicate"
  using append_merges_classification
          [of "\<lparr> item_record = ''B'', item_queue = [rec_B] \<rparr>" sim_by_ID default_settings]
        append_merges_classification
          [of "\<lparr> item_record = ''A'', item_queue = [rec_B, rec_A] \<rparr>" sim_by_ID default_settings]
  by (simp add: sim_by_ID_def default_settings_def)


text \<open>
  Claim C1 as stated: its \<open>duplicate iff max_score \<ge> merging_dup_threshold\<close> fails for settings the
  constructor accepts: with both thresholds at \<open>0.8\<close> and a maximum score of \<open>0.8\<close>
  the decision is \<open>no_duplicate\<close>.
\<close>

theorem append_merges_equal_thresholds_counterexample:
  "SimpleDedupe_init \<lparr> d_endpoint = Some ''simple_dedupe'',
       d_merging_non_dup_threshold = Some (4 / 5), d_merging_dup_threshold = Some (4 / 5) \<rparr>
     = Inr equal_settings
   \<and> append_merges sim_by_ID equal_settings \<lparr> item_record = ''A'', item_queue = [rec_B, rec_A] \<rparr>
     = \<lparr> ID1 = ''A'', ID2 = ''NA'', similarity = 4 / 5, decision = no_duplicate \<rparr>
   \<and> merging_dup_threshold equal_settings \<le> 4 / 5"
  by (simp add: SimpleDedupe_init_def from_dict_def equal_settings_def append_merges_def
      calculate_similarities_record_def series_max_def sim_by_ID_def)

text \<open>
  Claim C6, as the code has it. The constructor succeeds exactly when the settings are
  read and both thresholds lie in \<open>[0, 1]\<close>; a threshold outside \<open>[0, 1]\<close> fails an
  assertion; the defaults are \<open>0.7\<close> and \<open>0.95\<close>. The order of the two thresholds is
  not checked.
\<close>

theorem SimpleDedupe_init_range:
  "(SimpleDedupe_init d = Inr s \<longleftrightarrow>
      from_dict d = Inr s
      \<and> 0 \<le> merging_non_dup_threshold s \<and> merging_non_dup_threshold s \<le> 1
      \<and> 0 \<le> merging_dup_threshold s \<and> merging_dup_threshold s \<le> 1)
   \<and> (from_dict d = Inr s
        \<and> (merging_non_dup_threshold s < 0 \<or> 1 < merging_non_dup_threshold s
           \<or> merging_dup_threshold s < 0 \<or> 1 < merging_dup_threshold s)
       \<longrightarrow> SimpleDedupe_init d = Inl AssertionError)
   \<and> SimpleDedupe_init \<lparr> d_endpoint = Some e, d_merging_non_dup_threshold = None,
          d_merging_dup_threshold = None \<rparr>
       = Inr \<lparr> endpoint = e, merging_non_dup_threshold = 7 / 10,
               merging_dup_threshold = 95 / 100 \<rparr>"
  by (auto simp: SimpleDedupe_init_def from_dict_def split: option.splits sum.splits)

theorem SimpleDedupe_init_range_witness:
  "SimpleDedupe_init \<lparr> d_endpoint = Some ''simple_dedupe'',
       d_merging_non_dup_threshold = Some (7 / 10), d_merging_dup_threshold = Some (3 / 2) \<rparr>
     = Inl AssertionError
   \<and> SimpleDedupe_init \<lparr> d_endpoint = Some ''simple_dedupe'',
       d_merging_non_dup_threshold = Some (- 1 / 10), d_merging_dup_threshold = None \<rparr>
     = Inl AssertionError"
  using SimpleDedupe_init_range
          [of "\<lparr> d_endpoint = Some ''simple_dedupe'',
                 d_merging_non_dup_threshold = Some (7 / 10), d_merging_dup_threshold = Some (3 / 2) \<rparr>"
              "\<lparr> endpoint = ''simple_dedupe'', merging_non_dup_threshold = 7 / 10,
                 merging_dup_threshold = 3 / 2 \<rparr>"]
        SimpleDedupe_init_range
          [of "\<lparr> d_endpoint = Some ''simple_dedupe'',
                 d_merging_non_dup_threshold = Some (- 1 / 10), d_merging_dup_threshold = None \<rparr>"
              "\<lparr> endpoint = ''simple_dedupe'', merging_non_dup_threshold = - 1 / 10,
                 merging_dup_threshold = 95 / 100 \<rparr>"]
  by (simp add: from_dict_def)

text \<open>
  Claim C6 as stated: inverted thresholds inside \<open>[0, 1]\<close> do not fail the
  construction, they are accepted as they are.
\<close>

theorem SimpleDedupe_init_inverted_counterexample:
  "SimpleDedupe_init \<lparr> d_endpoint = Some ''simple_dedupe'',
       d_merging_non_dup_threshold = Some (9 / 10), d_merging_dup_threshold = Some (1 / 2) \<rparr>
     = Inr \<lparr> endpoint = ''simple_dedupe'', merging_non_dup_threshold = 9 / 10,
             merging_dup_threshold = 1 / 2 \<rparr>"
  by (simp add: SimpleDedupe_init_def from_dict_def)

lemma get_dedupe_data_parts:
  "get_dedupe_data force hs = Inr dd \<Longrightarrow>
     pending_part dd = ids_to_dedupe hs \<and> context_part dd = processed_ids hs"
  by (auto simp: get_dedupe_data_def pending_part_def context_part_def split: if_splits)

lemma ID_in_filter_distinct:
  "distinct (map ID hs) \<Longrightarrow> x \<in> set hs \<Longrightarrow> ID x \<in> set (map ID (filter P hs)) \<longleftrightarrow> P x"
  by (auto simp: distinct_map inj_on_def)

text \<open>
  Claim C4, as the code has it. For a store with distinct ids and a record \<open>x\<close> of it:
  \<open>x\<close> is in the pending part of the queue iff its status is \<open>md_prepared\<close>; it is in
  the context part iff its status is none of \<open>md_imported\<close>, \<open>md_prepared\<close>,
  \<open>md_needs_manual_preparation\<close>; so it is in the queue iff its status is neither
  \<open>md_imported\<close> nor \<open>md_needs_manual_preparation\<close>. The queue is the context part
  followed by the pending part.
\<close>

theorem get_dedupe_data_queue:
  assumes "get_dedupe_data force hs = Inr dd" and "distinct (map ID hs)" and "x \<in> set hs"
  shows "(ID x \<in> set (pending_part dd) \<longleftrightarrow> colrev_status x = md_prepared)
       \<and> (ID x \<in> set (context_part dd) \<longleftrightarrow>
            colrev_status x \<noteq> md_imported \<and> colrev_status x \<noteq> md_prepared
            \<and> colrev_status x \<noteq> md_needs_manual_preparation)
       \<and> (ID x \<in> set (queue dd) \<longleftrightarrow>
            colrev_status x \<noteq> md_imported \<and> colrev_status x \<noteq> md_needs_manual_preparation)
       \<and> queue dd = context_part dd @ pending_part dd
       \<and> nr_tasks dd = length (pending_part dd)"
proof -
  have parts: "pending_part dd = ids_to_dedupe hs" "context_part dd = processed_ids hs"
    using get_dedupe_data_parts [OF assms(1)] by simp_all
  have q: "queue dd = processed_ids hs @ ids_to_dedupe hs" "nr_tasks dd = length (ids_to_dedupe hs)"
    using assms(1) by (auto simp: get_dedupe_data_def split: if_splits)
  have p: "ID x \<in> set (ids_to_dedupe hs) \<longleftrightarrow> colrev_status x = md_prepared"
    unfolding ids_to_dedupe_def using ID_in_filter_distinct [OF assms(2,3)] by simp
  have c: "ID x \<in> set (processed_ids hs) \<longleftrightarrow>
             colrev_status x \<noteq> md_imported \<and> colrev_status x \<noteq> md_prepared
             \<and> colrev_status x \<noteq> md_needs_manual_preparation"
    unfolding processed_ids_def using ID_in_filter_distinct [OF assms(2,3)] by simp
  show ?thesis
    unfolding parts q using p c by auto
qed

theorem get_dedupe_data_queue_witness:
  "ID rec_A \<in> set (pending_part \<lparr> nr_tasks = 1, queue = [''B'', ''A''], items_start = 1 \<rparr>)
   \<and> ID rec_B \<in> set (context_part \<lparr> nr_tasks = 1, queue = [''B'', ''A''], items_start = 1 \<rparr>)"
proof -
  have g: "get_dedupe_data False [rec_A, rec_B]
             = Inr \<lparr> nr_tasks = 1, queue = [''B'', ''A''], items_start = 1 \<rparr>"
    by (simp add: get_dedupe_data_def ids_to_dedupe_def processed_ids_def)
  have d: "distinct (map ID [rec_A, rec_B])" by simp
  show ?thesis
    using get_dedupe_data_queue [OF g d, of rec_A] get_dedupe_data_queue [OF g d, of rec_B]
    by simp
qed

text \<open>
  Claim C4 as stated: a record with status \<open>md_imported\<close> is not pending, it is left
  out of the queue.
\<close>

theorem get_dedupe_data_imported_counterexample:
  "get_dedupe_data False
     [\<lparr> ID = ''I'', colrev_status = md_imported, colrev_origin = [''src.bib/3''],
        changed_in_target_commit = False, data_fields = [] \<rparr>]
   = Inr \<lparr> nr_tasks = 0, queue = [], items_start = 0 \<rparr>"
  by (simp add: get_dedupe_data_def ids_to_dedupe_def processed_ids_def)

lemma map_nth_from: "map (\<lambda>i. xs ! i) [n ..< length xs] = drop n xs"
  by (rule nth_equalityI) auto

lemma length_get_record_batch:
  "length (get_record_batch prep records dd) = length (queue dd) - items_start dd"
  by (simp add: get_record_batch_def Let_def)

text \<open>
  Claim C5. When more than 20 records are to be deduplicated (status \<open>md_prepared\<close>) and
  force mode is off, building the queue raises \<open>CoLRevException\<close> and so does the run:
  there is no list of decisions. With force mode on, or with at most 20 such records, the
  queue is built and the run yields one decision for each of these records, in their
  order.
\<close>

theorem run_dedupe_sample_size:
  "(20 < length (ids_to_dedupe records) \<and> \<not> force_mode \<longrightarrow>
      get_dedupe_data force_mode records = Inl CoLRevException
      \<and> run_dedupe sim prep s force_mode records = Inl CoLRevException)
   \<and> (force_mode \<or> length (ids_to_dedupe records) \<le> 20 \<longrightarrow>
      (\<exists>dd. get_dedupe_data force_mode records = Inr dd
            \<and> pending_part dd = ids_to_dedupe records)
      \<and> (\<exists>res. run_dedupe sim prep s force_mode records = Inr res
            \<and> map ID1 res = ids_to_dedupe records))"
proof (intro conjI impI)
  assume "20 < length (ids_to_dedupe records) \<and> \<not> force_mode"
  then show "get_dedupe_data force_mode records = Inl CoLRevException"
    by (simp add: get_dedupe_data_def)
  then show "run_dedupe sim prep s force_mode records = Inl CoLRevException"
    by (simp add: run_dedupe_def)
next
  assume h: "force_mode \<or> length (ids_to_dedupe records) \<le> 20"
  define dd where "dd = \<lparr> nr_tasks = length (ids_to_dedupe records),
              queue = processed_ids records @ ids_to_dedupe records,
              items_start = length (processed_ids records) \<rparr>"
  have g: "get_dedupe_data force_mode records = Inr dd"
    using h by (auto simp: get_dedupe_data_def dd_def)
  have p: "pending_part dd = ids_to_dedupe records"
    by (simp add: pending_part_def dd_def)
  show "\<exists>dd. get_dedupe_data force_mode records = Inr dd
            \<and> pending_part dd = ids_to_dedupe records"
    using g p by blast
  have "map ID1 (map (append_merges sim s) (get_record_batch prep records dd))
          = map (\<lambda>i. queue dd ! i) [items_start dd ..< length (queue dd)]"
    by (simp add: get_record_batch_def Let_def append_merges_def o_def)
  also have "\<dots> = drop (items_start dd) (queue dd)"
    by (rule map_nth_from)
  finally have "map ID1 (map (append_merges sim s) (get_record_batch prep records dd))
          = ids_to_dedupe records"
    using p by (simp add: pending_part_def)
  then show "\<exists>res. run_dedupe sim prep s force_mode records = Inr res
            \<and> map ID1 res = ids_to_dedupe records"
    using g by (simp add: run_dedupe_def)
qed

lemma ids_many_prepared: "length (ids_to_dedupe many_prepared) = 21"
  by (simp add: ids_to_dedupe_def many_prepared_def filter_map o_def)

theorem run_dedupe_sample_size_witness:
  "run_dedupe sim_by_ID (\<lambda>rows. rows) default_settings False many_prepared = Inl CoLRevException
   \<and> map_sum id length (run_dedupe sim_by_ID (\<lambda>rows. rows) default_settings True many_prepared)
       = Inr 21
   \<and> map_sum id length (run_dedupe sim_by_ID (\<lambda>rows. rows) default_settings False [rec_A, rec_B])
       = Inr 1"
proof -
  have a: "20 < length (ids_to_dedupe many_prepared) \<and> \<not> False"
    by (simp add: ids_many_prepared)
  have b: "length (ids_to_dedupe [rec_A, rec_B]) \<le> 20"
    by (simp add: ids_to_dedupe_def)
  have c: "length (ids_to_dedupe [rec_A, rec_B]) = 1"
    by (simp add: ids_to_dedupe_def)
  from run_dedupe_sample_size [of many_prepared False sim_by_ID "\<lambda>rows. rows" default_settings] a
  have 1: "run_dedupe sim_by_ID (\<lambda>rows. rows) default_settings False many_prepared
             = Inl CoLRevException" by simp
  from run_dedupe_sample_size [of many_prepared True sim_by_ID "\<lambda>rows. rows" default_settings]
  obtain res where r: "run_dedupe sim_by_ID (\<lambda>rows. rows) default_settings True many_prepared = Inr res"
    "map ID1 res = ids_to_dedupe many_prepared" by auto
  from r(2) have "length res = 21"
    using ids_many_prepared by (metis length_map)
  with r(1) have 2: "map_sum id length
      (run_dedupe sim_by_ID (\<lambda>rows. rows) default_settings True many_prepared) = Inr 21"
    by simp
  from run_dedupe_sample_size [of "[rec_A, rec_B]" False sim_by_ID "\<lambda>rows. rows" default_settings] b
  obtain res' where r': "run_dedupe sim_by_ID (\<lambda>rows. rows) default_settings False [rec_A, rec_B] = Inr res'"
    "map ID1 res' = ids_to_dedupe [rec_A, rec_B]" by auto
  from r'(2) have "length res' = 1" using c by (metis length_map)
  with r'(1) have 3: "map_sum id length
      (run_dedupe sim_by_ID (\<lambda>rows. rows) default_settings False [rec_A, rec_B]) = Inr 1"
    by simp
  show ?thesis using 1 2 3 by simp
qed

subsection \<open>The partner of a decision\<close>

text \<open>
  For one batch item, the partner reported with a \<open>potential_duplicate\<close> or
  \<open>duplicate\<close> decision is the first row before the last row whose score against the
  last row is the maximum.
\<close>

lemma hd_filter_first:
  "\<exists>x \<in> set xs. P x \<Longrightarrow>
     \<exists>i < length xs. hd (filter P xs) = xs ! i \<and> P (xs ! i) \<and> (\<forall>j < i. \<not> P (xs ! j))"
proof (induction xs)
  case Nil
  then show ?case by simp
next
  case (Cons a xs)
  show ?case
  proof (cases "P a")
    case True
    then have "0 < length (a # xs) \<and> hd (filter P (a # xs)) = (a # xs) ! 0 \<and> P ((a # xs) ! 0)
        \<and> (\<forall>j < 0. \<not> P ((a # xs) ! j))" by simp
    then show ?thesis by (rule exI [of _ 0])
  next
    case False
    with Cons.prems have "\<exists>x \<in> set xs. P x" by auto
    from Cons.IH [OF this] obtain i where
      i: "i < length xs" "hd (filter P xs) = xs ! i" "P (xs ! i)" "\<forall>j < i. \<not> P (xs ! j)" by blast
    have "\<forall>j < Suc i. \<not> P ((a # xs) ! j)"
      using False i(4) by (auto simp: less_Suc_eq_0_disj)
    then have "Suc i < length (a # xs) \<and> hd (filter P (a # xs)) = (a # xs) ! Suc i
        \<and> P ((a # xs) ! Suc i) \<and> (\<forall>j < Suc i. \<not> P ((a # xs) ! j))"
      using False i by simp
    then show ?thesis by (rule exI [of _ "Suc i"])
  qed
qed

lemma append_merges_partner:
  fixes b :: "'s batch_item" and sim :: "'s record_dict \<Rightarrow> 's record_dict \<Rightarrow> real"
  defines "q \<equiv> item_queue b"
  defines "m \<equiv> Max ((\<lambda>r. sim r (last (item_queue b))) ` set (butlast (item_queue b)))"
  assumes "butlast q \<noteq> []" and "decision (append_merges sim s b) \<noteq> no_duplicate"
  shows "\<exists>i < length q - 1. ID2 (append_merges sim s b) = ID (q ! i)
           \<and> sim (q ! i) (last q) = m \<and> (\<forall>j < i. sim (q ! j) (last q) < m)"
proof -
  let ?sims = "butlast (calculate_similarities_record sim q)"
  have sims: "?sims = map (\<lambda>row. (ID row, sim row (last q))) (butlast q)"
    by (simp add: calculate_similarities_record_def map_butlast)
  have mx: "series_max ?sims = m"
    by (simp add: series_max_butlast m_def q_def)
  have len: "\<not> length q < 2" using assms(3) by (cases q) auto
  have id2: "ID2 (append_merges sim s b) = idxmax_ID ?sims"
    using assms(4) len by (auto simp: append_merges_def Let_def q_def split: if_splits)
  have fin: "finite (snd ` set ?sims)" "snd ` set ?sims \<noteq> {}"
    using assms(3) by (simp_all add: sims)
  have "series_max ?sims \<in> snd ` set ?sims"
    unfolding series_max_def set_map using fin by (rule Max_in)
  then have "\<exists>x \<in> set ?sims. snd x = series_max ?sims" by force
  from hd_filter_first [of ?sims "\<lambda>row. snd row = series_max ?sims", OF this]
  obtain i where i: "i < length ?sims"
    "hd (filter (\<lambda>row. snd row = series_max ?sims) ?sims) = ?sims ! i"
    "snd (?sims ! i) = series_max ?sims"
    "\<forall>j < i. snd (?sims ! j) \<noteq> series_max ?sims" by blast
  have li: "i < length q - 1" using i(1) by (simp add: sims)
  have nth: "\<And>j. j < length q - 1 \<Longrightarrow> ?sims ! j = (ID (q ! j), sim (q ! j) (last q))"
    by (simp add: sims nth_butlast)
  have le: "\<And>j. j < length q - 1 \<Longrightarrow> sim (q ! j) (last q) \<le> m"
  proof -
    fix j assume j: "j < length q - 1"
    then have "q ! j \<in> set (butlast q)"
      by (metis length_butlast nth_butlast nth_mem)
    then show "sim (q ! j) (last q) \<le> m"
      unfolding m_def q_def by (intro Max_ge) auto
  qed
  have "ID2 (append_merges sim s b) = ID (q ! i)"
    using id2 i(2) nth [OF li] by (simp add: idxmax_ID_def)
  moreover have "sim (q ! i) (last q) = m"
    using i(3) nth [OF li] mx by simp
  moreover have "\<forall>j < i. sim (q ! j) (last q) < m"
  proof (intro allI impI)
    fix j assume j: "j < i"
    then have jl: "j < length q - 1" using li by simp
    from i(4) j have "snd (?sims ! j) \<noteq> series_max ?sims" by blast
    then have "sim (q ! j) (last q) \<noteq> m" using nth [OF jl] mx by simp
    then show "sim (q ! j) (last q) < m" using le [OF jl] by simp
  qed
  ultimately show ?thesis using li by blast
qed

text \<open>
  Claim C2 at a store that lists a prepared record \<open>A\<close> before a processed record
  \<open>B\<close>. The queue is \<open>[B, A]\<close>, with \<open>A\<close> pending at position 1, but the rows
  of the data frame keep the order of the store, \<open>[A, B]\<close>. The item for \<open>A\<close> scores
  the rows before the last row against the last row, which is \<open>B\<close>: the only candidate
  is \<open>A\<close> itself, and the decision names \<open>A\<close> as the partner of \<open>A\<close>.
\<close>

theorem run_dedupe_store_order:
  "get_dedupe_data False [rec_A, rec_B]
     = Inr \<lparr> nr_tasks = 1, queue = [''B'', ''A''], items_start = 1 \<rparr>
   \<and> get_record_batch (\<lambda>rows. rows) [rec_A, rec_B]
        \<lparr> nr_tasks = 1, queue = [''B'', ''A''], items_start = 1 \<rparr>
     = [\<lparr> item_record = ''A'', item_queue = [rec_A, rec_B] \<rparr>]
   \<and> run_dedupe sim_by_ID (\<lambda>rows. rows) default_settings False [rec_A, rec_B]
     = Inr [\<lparr> ID1 = ''A'', ID2 = ''A'', similarity = 4 / 5, decision = potential_duplicate \<rparr>]"
  by (simp add: run_dedupe_def get_dedupe_data_def ids_to_dedupe_def processed_ids_def
      get_record_batch_def append_merges_def calculate_similarities_record_def
      series_max_def idxmax_ID_def sim_by_ID_def default_settings_def)

section \<open>Properties of the validation\<close>

subsection \<open>The prior-snapshot loader\<close>

lemma load_prior_loop_found:
  "load_prior_loop ld t True revs =
     (case dropWhile (\<lambda>p. fst p = t) revs of
        [] \<Rightarrow> Inl UnboundLocalError
      | p # _ \<Rightarrow> Inr (ld (snd p)))"
  by (induction revs) auto

lemma load_prior_loop_not_found:
  "load_prior_loop ld t False revs =
     (case dropWhile (\<lambda>p. fst p = t) (dropWhile (\<lambda>p. fst p \<noteq> t) revs) of
        [] \<Rightarrow> Inl UnboundLocalError
      | p # _ \<Rightarrow> Inr (ld (snd p)))"
  by (induction revs) (auto simp: load_prior_loop_found)

lemma load_prior_loop_found_Inr:
  "load_prior_loop ld t True revs = Inr d \<Longrightarrow> \<exists>p \<in> set revs. fst p \<noteq> t \<and> d = ld (snd p)"
  by (induction revs) (auto split: if_splits)

lemma load_prior_loop_not_found_Inr:
  "load_prior_loop ld t False revs = Inr d \<Longrightarrow>
     \<exists>pre c rest. revs = pre @ (t, c) # rest \<and> t \<notin> fst ` set pre
        \<and> (\<exists>p \<in> set rest. fst p \<noteq> t \<and> d = ld (snd p))"
proof (induction revs)
  case Nil
  then show ?case by simp
next
  case (Cons a revs)
  obtain cid fc where a: "a = (cid, fc)" by (cases a)
  show ?case
  proof (cases "cid = t")
    case True
    with Cons.prems a have "load_prior_loop ld t True revs = Inr d" by simp
    then have "\<exists>p \<in> set revs. fst p \<noteq> t \<and> d = ld (snd p)"
      by (rule load_prior_loop_found_Inr)
    then have "a # revs = [] @ (t, fc) # revs \<and> t \<notin> fst ` set []
        \<and> (\<exists>p \<in> set revs. fst p \<noteq> t \<and> d = ld (snd p))"
      using a True by simp
    then show ?thesis by blast
  next
    case False
    with Cons.prems a have "load_prior_loop ld t False revs = Inr d" by simp
    from Cons.IH [OF this] obtain pre c rest where
      r: "revs = pre @ (t, c) # rest" "t \<notin> fst ` set pre"
         "\<exists>p \<in> set rest. fst p \<noteq> t \<and> d = ld (snd p)" by blast
    have "a # revs = (a # pre) @ (t, c) # rest \<and> t \<notin> fst ` set (a # pre)
        \<and> (\<exists>p \<in> set rest. fst p \<noteq> t \<and> d = ld (snd p))"
      using r a False by auto
    then show ?thesis by blast
  qed
qed

lemma load_prior_absent:
  "t \<notin> fst ` set revs \<Longrightarrow> load_prior_loop ld t False revs = Inl UnboundLocalError"
  by (induction revs) auto

lemma load_prior_oldest:
  "t \<notin> fst ` set pre \<Longrightarrow> load_prior_loop ld t False (pre @ [(t, c)]) = Inl UnboundLocalError"
  by (induction pre) auto

text \<open>
  Claim C10. The loader returns a snapshot only if the history has the target commit
  followed by a later entry (an older commit), whose contents it parses. If the target
  commit is not in the history, or is its last (oldest) entry, the loader raises
  \<open>UnboundLocalError\<close>, and so do both validation operations.
\<close>

theorem load_prior_records_dict_raises:
  "(load_prior_records_dict ld revs t = Inr d \<longrightarrow>
      (\<exists>pre c rest. revs = pre @ (t, c) # rest \<and> t \<notin> fst ` set pre
         \<and> (\<exists>p \<in> set rest. fst p \<noteq> t \<and> d = ld (snd p))))
   \<and> (t \<notin> fst ` set revs \<or> (\<exists>pre c. revs = pre @ [(t, c)] \<and> t \<notin> fst ` set pre) \<longrightarrow>
        load_prior_records_dict ld revs t = Inl UnboundLocalError
      \<and> validate_preparation_changes sim ld revs records t = Inl UnboundLocalError
      \<and> validate_merging_changes sim ld revs records t = Inl UnboundLocalError)"
proof -
  have 1: "load_prior_records_dict ld revs t = Inr d \<longrightarrow>
      (\<exists>pre c rest. revs = pre @ (t, c) # rest \<and> t \<notin> fst ` set pre
         \<and> (\<exists>p \<in> set rest. fst p \<noteq> t \<and> d = ld (snd p)))"
    unfolding load_prior_records_dict_def by (rule impI) (rule load_prior_loop_not_found_Inr)
  have 2: "load_prior_records_dict ld revs t = Inl UnboundLocalError"
    if "t \<notin> fst ` set revs \<or> (\<exists>pre c. revs = pre @ [(t, c)] \<and> t \<notin> fst ` set pre)"
    using that unfolding load_prior_records_dict_def
    by (auto simp: load_prior_absent load_prior_oldest)
  show ?thesis
    using 1 2 by (simp add: validate_preparation_changes_def validate_merging_changes_def)
qed

theorem load_prior_records_dict_raises_witness:
  "load_prior_records_dict (\<lambda>contents. contents) history ''c1'' = Inl UnboundLocalError
   \<and> validate_preparation_changes sim_by_title (\<lambda>contents. contents) history [merged_ab] ''c1''
       = Inl UnboundLocalError
   \<and> validate_merging_changes sim_by_title (\<lambda>contents. contents) history [merged_ab] ''c1''
       = Inl UnboundLocalError
   \<and> load_prior_records_dict (\<lambda>contents. contents) history ''c0'' = Inl UnboundLocalError
   \<and> load_prior_records_dict (\<lambda>contents. contents) history ''c2'' = Inr [prior_a, prior_b]"
proof -
  have old: "\<exists>pre c. history = pre @ [(''c1'', c)] \<and> ''c1'' \<notin> fst ` set pre"
    by (intro exI [of _ "[(''c2'', [merged_ab])]"] exI [of _ "[prior_a, prior_b]"])
       (simp add: history_def)
  have absent: "''c0'' \<notin> fst ` set history"
    by (simp add: history_def)
  have ok: "load_prior_records_dict (\<lambda>contents. contents) history ''c2'' = Inr [prior_a, prior_b]"
    by (simp add: load_prior_records_dict_def history_def)
  show ?thesis
    using load_prior_records_dict_raises
            [of "\<lambda>contents. contents" history "''c1''" "[prior_a, prior_b]" sim_by_title "[merged_ab]"]
          load_prior_records_dict_raises
            [of "\<lambda>contents. contents" history "''c0''" "[prior_a, prior_b]" sim_by_title "[merged_ab]"]
          load_prior_records_dict_raises
            [of "\<lambda>contents. contents" history "''c2''" "[prior_a, prior_b]" sim_by_title "[merged_ab]"]
          old absent ok
    by simp
qed

subsection \<open>Merge validation\<close>

text \<open>
  Claim C3 at a record changed in the target commit with the two origins \<open>a.bib/1\<close> and
  \<open>b.bib/7\<close>, both carried by records of the preceding snapshot that score \<open>0.3\<close>.
  The test \<open>";" in record["colrev_origin"]\<close> looks for the element \<open>";"\<close> in the list
  of origins, finds none, and no pair is scored: the result is empty.
\<close>

theorem validate_merging_changes_no_pairs:
  "load_prior_records_dict (\<lambda>contents. contents) history ''c2'' = Inr [prior_a, prior_b]
   \<and> combinations2 (colrev_origin merged_ab) = [(''a.bib/1'', ''b.bib/7'')]
   \<and> sim_by_title prior_a prior_b = 3 / 10
   \<and> validate_merging_changes sim_by_title (\<lambda>contents. contents) history [merged_ab] ''c2''
      = Inr ([merged_ab \<lparr> changed_in_target_commit := False \<rparr>], [])"
  by (simp add: load_prior_records_dict_def history_def merged_ab_def prior_a_def prior_b_def
      sim_by_title_def validate_merging_changes_def rank_changes_def)

subsection \<open>Ranking\<close>













subsection \<open>The entry point with scope \<open>all\<close>\<close>

text \<open>
  The preparation validation deletes \<open>changed_in_target_commit\<close> from every record it
  looks at, so the merge validation that follows skips every record; its empty result
  replaces the result of the preparation validation.
\<close>

lemma preparation_loop_unchanged:
  "preparation_loop sim prior rs = Inr (rs', cd) \<Longrightarrow> \<forall>r \<in> set rs'. \<not> changed_in_target_commit r"
  by (induction rs arbitrary: rs' cd)
     (auto simp: Let_def split: if_splits sum.splits prod.splits)

lemma merging_loop_unchanged:
  "\<forall>r \<in> set rs. \<not> changed_in_target_commit r \<Longrightarrow> merging_loop sim prior rs = Inr (rs, [])"
  by (induction rs) auto

lemma main_validate_all_empty:
  assumes "main_validate sim ld rp ''all'' False t = Inr details"
  shows "details = []"
proof -
  let ?records = "load_changed_records rp (Some t)"
  from assms obtain records1 d1 where
    p: "validate_preparation_changes sim ld (records_revlist rp) ?records t = Inr (records1, d1)"
    by (auto simp: main_validate_def Let_def split: sum.splits prod.splits)
  then obtain prior cd where
    pr: "load_prior_records_dict ld (records_revlist rp) t = Inr prior" and
    l: "preparation_loop sim prior ?records = Inr (records1, cd)"
    by (auto simp: validate_preparation_changes_def split: sum.splits prod.splits)
  have m: "merging_loop sim prior records1 = Inr (records1, [])"
    using preparation_loop_unchanged [OF l] by (rule merging_loop_unchanged)
  have "validate_merging_changes sim ld (records_revlist rp) records1 t = Inr (records1, [])"
    using pr m by (simp add: validate_merging_changes_def rank_changes_def)
  with assms p show ?thesis
    by (simp add: main_validate_def Let_def)
qed

text \<open>
  Claim C8 at a commit that edited one record: the preparation validation has one
  finding, scope \<open>prepare\<close> returns it, scope \<open>all\<close> returns the empty list.
\<close>

theorem main_validate_all_discards:
  "validate_preparation_changes sim_by_title (\<lambda>contents. contents)
       (records_revlist prep_repo) (load_changed_records prep_repo (Some ''c2'')) ''c2''
     = Inr ([edited_a \<lparr> changed_in_target_commit := False, colrev_status := None \<rparr>],
            [(prior_a, edited_a \<lparr> changed_in_target_commit := False, colrev_status := None \<rparr>,
              3 / 10)])
   \<and> main_validate sim_by_title (\<lambda>contents. contents) prep_repo ''prepare'' False ''c2''
     = Inr [(prior_a, edited_a \<lparr> changed_in_target_commit := False, colrev_status := None \<rparr>,
              3 / 10)]
   \<and> main_validate sim_by_title (\<lambda>contents. contents) prep_repo ''all'' False ''c2'' = Inr []"
  by (simp add: main_validate_def prep_repo_def load_changed_records_def
      load_prior_records_dict_def prep_history_def edited_a_def prior_a_def prior_b_def
      sim_by_title_def validate_preparation_changes_def validate_merging_changes_def
      rank_changes_def sim_of_def Let_def)

section \<open>Properties of the DBLP retrieval\<close>

text \<open>
  Claim C9 at a record with a matching DBLP record. When a call between \<open>acquire\<close> and
  \<open>release\<close> raises \<open>RequestException\<close>, the handler returns the record (unchanged
  when the feed could not be loaded, merged when saving the feed file failed) and the
  lock stays held; when it raises another exception, the exception leaves the function
  and the lock stays held. When the lock is held elsewhere and \<open>acquire\<close> times out,
  its result is dropped: the feed is updated all the same and \<open>release\<close> frees the lock
  of the other holder.
\<close>

theorem get_masterdata_from_dblp_lock_leak:
  "get_masterdata_from_dblp failing_env Free rec_A = (Inr rec_A, HeldBySelf)
   \<and> get_masterdata_from_dblp late_failing_env Free rec_A = (Inr merged_a, HeldBySelf)
   \<and> get_masterdata_from_dblp
        (failing_env \<lparr> update_feed_and_record := (\<lambda>r retrieved. (Some OSError, r)) \<rparr>) Free rec_A
       = (Inl OSError, HeldBySelf)
   \<and> lock_acquire (released_in_time busy_env) HeldByOther = (False, HeldByOther)
   \<and> get_masterdata_from_dblp busy_env HeldByOther rec_A = (Inr merged_a, Free)"
  by (simp add: get_masterdata_from_dblp_def failing_env_def late_failing_env_def busy_env_def
      rec_A_def lock_acquire_def lock_release_def)


end
